theory Spec2Isabelle
  imports Complex_Main "HOL-Library.Word"
begin

section \<open>Values, documents and faults\<close>

text \<open>
  The backend is a FastAPI application (\<^verbatim>\<open>main.py\<close>) over a MongoDB database; its request
  schemas are pydantic models (\<^verbatim>\<open>schemas.py\<close>). A document is a Python dictionary from
  field names to values. Python strings are read as \<open>string\<close>; a \<^verbatim>\<open>float\<close> is read as
  the real number it denotes (no arithmetic is done on prices, only the comparison with 0).
  \<open>BUrl\<close> is a pydantic \<^verbatim>\<open>Url\<close> object, which is what a validated \<^verbatim>\<open>HttpUrl\<close> field holds
  and what \<^verbatim>\<open>model_dump()\<close> leaves in the dictionary: it is not a \<^verbatim>\<open>str\<close>.
\<close>

datatype ObjectId = ObjectId (binary: "8 word list")

datatype bson =
    BNull
  | BBool bool
  | BFloat real
  | BInt int
  | BStr string
  | BDatetime int
  | BOid ObjectId
  | BUrl string
  | BList "bson list"
  | BDict "(string \<times> bson) list"

type_synonym document = "string \<rightharpoonup> bson"

text \<open>A filter dictionary such as \<^verbatim>\<open>{"_id": oid}\<close> or the \<^verbatim>\<open>q\<close> of \<^verbatim>\<open>list_products\<close>.\<close>

type_synonym query = "(string \<times> bson) list"

text \<open>A dictionary given by its items in order, such as the result of \<^verbatim>\<open>model_dump()\<close>.\<close>

type_synonym items = "(string \<times> bson) list"

datatype loc_item = Field string | Index nat

text \<open>
  \<open>HTTPException\<close> is FastAPI's; \<open>RequestValidationError\<close> is what FastAPI answers (422)
  when a request body fails its pydantic model, one entry (location, error type) per
  violation; \<open>InvalidId\<close> and \<open>InvalidDocument\<close> are bson's; \<open>KeyError\<close> is Python's.
\<close>

datatype error =
    HTTPException (status_code: int) (detail: string)
  | RequestValidationError "(loc_item list \<times> string) list"
  | InvalidId
  | InvalidDocument
  | KeyError string

section \<open>The identifier codec: \<^verbatim>\<open>bson.ObjectId\<close>\<close>

text \<open>
  \<^verbatim>\<open>ObjectId\<close> is the class of the bson library that \<^verbatim>\<open>main.py\<close> imports. Its constructor, given
  a \<^verbatim>\<open>str\<close>, checks \<^verbatim>\<open>len(oid) == 24\<close> and then takes \<^verbatim>\<open>bytes.fromhex(oid)\<close> as the
  identifier's bytes, raising \<^verbatim>\<open>InvalidId\<close> when the length differs or \<^verbatim>\<open>fromhex\<close> raises;
  \<^verbatim>\<open>str(oid)\<close> is \<^verbatim>\<open>binascii.hexlify\<close> of the bytes, which writes lower-case digits.

  \<^verbatim>\<open>bytes.fromhex\<close> reads two hexadecimal digits (either case) per byte and skips ASCII
  whitespace before a pair (\<^verbatim>\<open>bytes.fromhex('2Ef0 F1f2  ')\<close> is the four bytes 2e f0 f1 f2);
  whitespace between the two digits of a pair, any other character and a trailing
  single digit raise \<^verbatim>\<open>ValueError\<close>.
\<close>

definition isspace :: "char \<Rightarrow> bool" where
  "isspace c = (c \<in> set [CHR '' '', CHR 0x09, CHR 0x0A, CHR 0x0B, CHR 0x0C, CHR 0x0D])"

definition digit_value :: "char \<Rightarrow> nat option" where
  "digit_value c = map_of
     [(CHR ''0'', 0), (CHR ''1'', 1), (CHR ''2'', 2), (CHR ''3'', 3), (CHR ''4'', 4),
      (CHR ''5'', 5), (CHR ''6'', 6), (CHR ''7'', 7), (CHR ''8'', 8), (CHR ''9'', 9),
      (CHR ''a'', 10), (CHR ''b'', 11), (CHR ''c'', 12), (CHR ''d'', 13), (CHR ''e'', 14),
      (CHR ''f'', 15),
      (CHR ''A'', 10), (CHR ''B'', 11), (CHR ''C'', 12), (CHR ''D'', 13), (CHR ''E'', 14),
      (CHR ''F'', 15)] c"

fun fromhex :: "string \<Rightarrow> 8 word list option" where
  "fromhex [] = Some []"
| "fromhex (c # cs) =
     (if isspace c then fromhex cs
      else case digit_value c of
        None \<Rightarrow> None
      | Some hi \<Rightarrow>
          (case cs of
             [] \<Rightarrow> None
           | d # ds \<Rightarrow>
               (case digit_value d of
                  None \<Rightarrow> None
                | Some lo \<Rightarrow> map_option ((#) (of_nat (16 * hi + lo))) (fromhex ds))))"

definition hexdigit :: "nat \<Rightarrow> char" where
  "hexdigit n = ''0123456789abcdef'' ! n"

definition hexlify :: "8 word list \<Rightarrow> string" where
  "hexlify bs = concat (map (\<lambda>b. [hexdigit (unat b div 16), hexdigit (unat b mod 16)]) bs)"

text \<open>\<^verbatim>\<open>ObjectId(s)\<close> for a string \<open>s\<close>, and \<^verbatim>\<open>str(oid)\<close>.\<close>

definition ObjectId_validate :: "string \<Rightarrow> error + ObjectId" where
  "ObjectId_validate s =
     (if length s = 24 then
        (case fromhex s of Some bs \<Rightarrow> Inr (ObjectId bs) | None \<Rightarrow> Inl InvalidId)
      else Inl InvalidId)"

definition ObjectId_str :: "ObjectId \<Rightarrow> string" where
  "ObjectId_str oid = hexlify (binary oid)"

text \<open>
  Python's \<^verbatim>\<open>str\<close> on a document value. On an \<^verbatim>\<open>ObjectId\<close> it is \<open>ObjectId_str\<close>; what it
  prints for the other values is the parameter \<open>other\<close>.
\<close>

definition py_str :: "(bson \<Rightarrow> string) \<Rightarrow> bson \<Rightarrow> string" where
  "py_str other v = (case v of BOid oid \<Rightarrow> ObjectId_str oid | _ \<Rightarrow> other v)"

text \<open>
  \<^verbatim>\<open>_oid\<close> (main.py, lines 27-31), here \<open>p_oid\<close>: every exception of the constructor
  becomes the 400 fault.
\<close>

definition p_oid :: "string \<Rightarrow> error + ObjectId" where
  "p_oid id_str =
     (case ObjectId_validate id_str of
        Inr oid \<Rightarrow> Inr oid
      | Inl _ \<Rightarrow> Inl (HTTPException 400 ''Invalid id''))"

text \<open>
  \<^verbatim>\<open>_doc_with_id\<close> (main.py, lines 34-38), here \<open>doc_with_id\<close>: an empty dictionary is falsy;
  \<^verbatim>\<open>doc.pop("_id")\<close> raises \<^verbatim>\<open>KeyError\<close> when the key is missing.
\<close>

definition doc_with_id :: "(bson \<Rightarrow> string) \<Rightarrow> document \<Rightarrow> error + document option" where
  "doc_with_id other doc =
     (if doc = Map.empty then Inr None
      else case doc ''_id'' of
        None \<Rightarrow> Inl (KeyError ''_id'')
      | Some v \<Rightarrow> Inr (Some ((doc(''_id'' := None))(''id'' \<mapsto> BStr (py_str other v)))))"

section \<open>The document store\<close>

text \<open>
  The state is the connected database \<^verbatim>\<open>db\<close>: each collection holds its documents in
  insertion order. \<open>calls\<close> lists the operations issued to the driver so far, so that
  "the store is not reached" is a statement about the state. A database that is not
  configured (\<^verbatim>\<open>db is None\<close>, which \<^verbatim>\<open>/test\<close> reports) and a lost connection are outside
  the model.
\<close>

datatype store_call =
    Insert_one string
  | Find string
  | Find_one string
  | Update_one string
  | Delete_one string

record database =
  colls :: "string \<Rightarrow> document list"
  calls :: "store_call list"

definition matches :: "query \<Rightarrow> document \<Rightarrow> bool" where
  "matches q d = list_all (\<lambda>(k, v). d k = Some v) q"

text \<open>
  What bson can encode: every value but a \<^verbatim>\<open>Url\<close> object, which is of no type bson knows,
  also inside a list or a nested dictionary. pymongo encodes a command before sending
  it and raises \<^verbatim>\<open>InvalidDocument\<close> for a value it cannot encode.
\<close>

fun encodable :: "bson \<Rightarrow> bool" where
  "encodable (BUrl u) = False"
| "encodable (BList vs) = list_all encodable vs"
| "encodable (BDict kvs) = list_all (\<lambda>kv. encodable (snd kv)) kvs"
| "encodable v = True"

definition encodable_items :: "items \<Rightarrow> bool" where
  "encodable_items kvs = list_all (\<lambda>kv. encodable (snd kv)) kvs"

text \<open>
  pymongo's \<^verbatim>\<open>find_one\<close>, \<^verbatim>\<open>update_one\<close> with a \<^verbatim>\<open>$set\<close> update and \<^verbatim>\<open>delete_one\<close>, on an
  equality filter: each acts on the first matching document. \<^verbatim>\<open>$set\<close> assigns the given
  fields and leaves the document's other fields as they are. \<^verbatim>\<open>update_one\<close> returns
  \<^verbatim>\<open>matched_count\<close> and \<^verbatim>\<open>delete_one\<close> returns \<^verbatim>\<open>deleted_count\<close>. The filters of the
  handlers are \<^verbatim>\<open>{"_id": oid}\<close>, which bson encodes; the fields given to \<^verbatim>\<open>$set\<close> are a
  dumped model, and \<^verbatim>\<open>update_one\<close> raises \<^verbatim>\<open>InvalidDocument\<close> when one of them cannot be
  encoded: the command is not sent and no document is looked up.
\<close>

definition find_one :: "string \<Rightarrow> query \<Rightarrow> database \<Rightarrow> document option \<times> database" where
  "find_one c q db =
     (find (matches q) (colls db c), db\<lparr>calls := calls db @ [Find_one c]\<rparr>)"

fun set_first :: "(document \<Rightarrow> bool) \<Rightarrow> document \<Rightarrow> document list \<Rightarrow> document list" where
  "set_first P data [] = []"
| "set_first P data (d # ds) = (if P d then (d ++ data) # ds else d # set_first P data ds)"

definition update_one ::
  "string \<Rightarrow> query \<Rightarrow> items \<Rightarrow> database \<Rightarrow> (error + nat) \<times> database" where
  "update_one c q data db =
     (if encodable_items data then
        (Inr (if find (matches q) (colls db c) = None then 0 else 1),
         db\<lparr>colls := (colls db)(c := set_first (matches q) (map_of data) (colls db c)),
            calls := calls db @ [Update_one c]\<rparr>)
      else (Inl InvalidDocument, db\<lparr>calls := calls db @ [Update_one c]\<rparr>))"

fun delete_first :: "(document \<Rightarrow> bool) \<Rightarrow> document list \<Rightarrow> document list" where
  "delete_first P [] = []"
| "delete_first P (d # ds) = (if P d then ds else d # delete_first P ds)"

definition delete_one :: "string \<Rightarrow> query \<Rightarrow> database \<Rightarrow> nat \<times> database" where
  "delete_one c q db =
     ((if find (matches q) (colls db c) = None then 0 else 1),
      db\<lparr>colls := (colls db)(c := delete_first (matches q) (colls db c)),
         calls := calls db @ [Delete_one c]\<rparr>)"

text \<open>
  Modelled from the spec: \<^verbatim>\<open>get_documents\<close> and \<^verbatim>\<open>create_document\<close> are functions of the
  repository's \<^verbatim>\<open>database\<close> module, which is not among the sources. The spec (4.3) gives
  \<^verbatim>\<open>findMany(collection, filter, limit?)\<close> as the insertion-ordered sequence of the documents
  matching all filter key/value equalities, optionally capped at \<^verbatim>\<open>limit\<close>, and
  \<^verbatim>\<open>insert(collection, record)\<close> as persisting exactly one new document and returning its
  newly assigned identifier, which the handlers return as a string. The identifier the
  store assigns is the argument \<open>new_id\<close>; the record is given as the dictionary of its
  fields, and the document persisted holds these fields as they are.
\<close>

definition get_documents ::
  "string \<Rightarrow> query \<Rightarrow> nat option \<Rightarrow> database \<Rightarrow> document list \<times> database" where
  "get_documents c q limit db =
     (let found = filter (matches q) (colls db c) in
      ((case limit of None \<Rightarrow> found | Some n \<Rightarrow> take n found),
       db\<lparr>calls := calls db @ [Find c]\<rparr>))"

definition create_document ::
  "string \<Rightarrow> document \<Rightarrow> ObjectId \<Rightarrow> database \<Rightarrow> string \<times> database" where
  "create_document c data new_id db =
     (ObjectId_str new_id,
      db\<lparr>colls := (colls db)(c := colls db c @ [data(''_id'' \<mapsto> BOid new_id)]),
         calls := calls db @ [Insert_one c]\<rparr>)"

section \<open>Record schemas (schemas.py)\<close>

text \<open>
  The pydantic models, and the request bodies they are validated from. A body gives
  each field as present with a value of the declared JSON type, or absent (\<open>None\<close>; for
  an \<^verbatim>\<open>Optional\<close> field also an explicit null). \<^verbatim>\<open>HttpUrl\<close> and \<^verbatim>\<open>EmailStr\<close> are pydantic's
  syntax checks; they are parameters, returning the validated text or the error type.
\<close>

record ProductImage =
  url :: string
  alt :: "string option"

record Product =
  title :: string
  description :: "string option"
  price :: real
  category :: string
  subcategory :: "string option"
  images :: "ProductImage list"
  in_stock :: bool
  featured :: bool
  tags :: "string list"

record CartItem =
  product_id :: string
  quantity :: int

record OrderCustomer =
  name :: string
  email :: string
  phone :: string

record OrderAddress =
  line1 :: string
  line2 :: "string option"
  city :: string
  state :: "string option"
  postal_code :: "string option"
  country :: string

record Order =
  items :: "CartItem list"
  amount :: real
  currency :: string
  payment_provider :: string
  payment_id :: "string option"
  status :: string
  customer :: OrderCustomer
  address :: OrderAddress
  delivery_option :: string
  created_at :: "int option"

record ProductImage_body =
  url_in :: "string option"
  alt_in :: "string option"

record Product_body =
  title_in :: "string option"
  description_in :: "string option"
  price_in :: "real option"
  category_in :: "string option"
  subcategory_in :: "string option"
  images_in :: "ProductImage_body list option"
  in_stock_in :: "bool option"
  featured_in :: "bool option"
  tags_in :: "string list option"

record CartItem_body =
  product_id_in :: "string option"
  quantity_in :: "int option"

record OrderCustomer_body =
  name_in :: "string option"
  email_in :: "string option"
  phone_in :: "string option"

record OrderAddress_body =
  line1_in :: "string option"
  line2_in :: "string option"
  city_in :: "string option"
  state_in :: "string option"
  postal_code_in :: "string option"
  country_in :: "string option"

record Order_body =
  items_in :: "CartItem_body list option"
  amount_in :: "real option"
  currency_in :: "string option"
  payment_provider_in :: "string option"
  payment_id_in :: "string option"
  status_in :: "string option"
  customer_in :: "OrderCustomer_body option"
  address_in :: "OrderAddress_body option"
  delivery_option_in :: "string option"
  created_at_in :: "int option"

type_synonym verrors = "(loc_item list \<times> string) list"

text \<open>A required field (\<^verbatim>\<open>Field(...)\<close>, or no default): absent is the error \<^verbatim>\<open>missing\<close>.\<close>

definition required :: "loc_item list \<Rightarrow> 'a option \<Rightarrow> verrors" where
  "required loc v = (case v of None \<Rightarrow> [(loc, ''missing'')] | Some _ \<Rightarrow> [])"

text \<open>A required float with \<^verbatim>\<open>ge=0\<close> (\<^verbatim>\<open>Product.price\<close>, \<^verbatim>\<open>Order.amount\<close>).\<close>

definition required_ge0 :: "loc_item list \<Rightarrow> real option \<Rightarrow> verrors" where
  "required_ge0 loc v =
     (case v of
        None \<Rightarrow> [(loc, ''missing'')]
      | Some x \<Rightarrow> if 0 \<le> x then [] else [(loc, ''greater_than_equal'')])"

text \<open>A required field with a syntax check (\<^verbatim>\<open>url: HttpUrl\<close>, \<^verbatim>\<open>email: EmailStr\<close>).\<close>

definition required_checked ::
  "(string \<Rightarrow> string + string) \<Rightarrow> loc_item list \<Rightarrow> string option \<Rightarrow> verrors" where
  "required_checked check loc v =
     (case v of
        None \<Rightarrow> [(loc, ''missing'')]
      | Some s \<Rightarrow> (case check s of Inl ty \<Rightarrow> [(loc, ty)] | Inr _ \<Rightarrow> []))"

definition checked_value :: "(string \<Rightarrow> string + string) \<Rightarrow> string option \<Rightarrow> string" where
  "checked_value check v =
     (case v of None \<Rightarrow> [] | Some s \<Rightarrow> (case check s of Inl _ \<Rightarrow> [] | Inr s' \<Rightarrow> s'))"

definition ProductImage_errors ::
  "(string \<Rightarrow> string + string) \<Rightarrow> loc_item list \<Rightarrow> ProductImage_body \<Rightarrow> verrors" where
  "ProductImage_errors HttpUrl loc b = required_checked HttpUrl (loc @ [Field ''url'']) (url_in b)"

definition Product_errors :: "(string \<Rightarrow> string + string) \<Rightarrow> Product_body \<Rightarrow> verrors" where
  "Product_errors HttpUrl b =
     required [Field ''body'', Field ''title''] (title_in b) @
     required_ge0 [Field ''body'', Field ''price''] (price_in b) @
     required [Field ''body'', Field ''category''] (category_in b) @
     (case images_in b of
        None \<Rightarrow> []
      | Some ims \<Rightarrow>
          concat (map (\<lambda>(i, im).
                    ProductImage_errors HttpUrl [Field ''body'', Field ''images'', Index i] im)
                  (enumerate 0 ims)))"

definition validate_ProductImage ::
  "(string \<Rightarrow> string + string) \<Rightarrow> ProductImage_body \<Rightarrow> ProductImage" where
  "validate_ProductImage HttpUrl b =
     \<lparr>url = checked_value HttpUrl (url_in b), alt = alt_in b\<rparr>"

text \<open>
  Validation of a request body against \<^verbatim>\<open>Product\<close>: all violations are reported; without
  one, absent fields take their defaults (\<^verbatim>\<open>None\<close>, the empty list, \<^verbatim>\<open>True\<close>, \<^verbatim>\<open>False\<close>).
\<close>

definition validate_Product ::
  "(string \<Rightarrow> string + string) \<Rightarrow> Product_body \<Rightarrow> error + Product" where
  "validate_Product HttpUrl b =
     (case Product_errors HttpUrl b of
        e # es \<Rightarrow> Inl (RequestValidationError (e # es))
      | [] \<Rightarrow>
          Inr \<lparr>title = the (title_in b),
               description = description_in b,
               price = the (price_in b),
               category = the (category_in b),
               subcategory = subcategory_in b,
               images =
                 (case images_in b of
                    None \<Rightarrow> []
                  | Some ims \<Rightarrow> map (validate_ProductImage HttpUrl) ims),
               in_stock = (case in_stock_in b of None \<Rightarrow> True | Some v \<Rightarrow> v),
               featured = (case featured_in b of None \<Rightarrow> False | Some v \<Rightarrow> v),
               tags = (case tags_in b of None \<Rightarrow> [] | Some ts \<Rightarrow> ts)\<rparr>)"

definition dump_opt :: "string option \<Rightarrow> bson" where
  "dump_opt v = (case v of None \<Rightarrow> BNull | Some s \<Rightarrow> BStr s)"

text \<open>
  \<^verbatim>\<open>product.model_dump()\<close>: the dictionary of all nine fields, in the order of their
  declaration. An image's \<^verbatim>\<open>url\<close> is an \<^verbatim>\<open>HttpUrl\<close>, which the dump leaves as the \<^verbatim>\<open>Url\<close>
  object it is.
\<close>

definition ProductImage_model_dump :: "ProductImage \<Rightarrow> bson" where
  "ProductImage_model_dump im = BDict [(''url'', BUrl (url im)), (''alt'', dump_opt (alt im))]"

definition Product_model_dump :: "Product \<Rightarrow> items" where
  "Product_model_dump p =
     [(''title'', BStr (title p)),
      (''description'', dump_opt (description p)),
      (''price'', BFloat (price p)),
      (''category'', BStr (category p)),
      (''subcategory'', dump_opt (subcategory p)),
      (''images'', BList (map ProductImage_model_dump (images p))),
      (''in_stock'', BBool (in_stock p)),
      (''featured'', BBool (featured p)),
      (''tags'', BList (map BStr (tags p)))]"

definition CartItem_errors :: "loc_item list \<Rightarrow> CartItem_body \<Rightarrow> verrors" where
  "CartItem_errors loc b =
     required (loc @ [Field ''product_id'']) (product_id_in b) @
     (case quantity_in b of
        None \<Rightarrow> []
      | Some n \<Rightarrow> if 1 \<le> n then [] else [(loc @ [Field ''quantity''], ''greater_than_equal'')])"

definition OrderCustomer_errors ::
  "(string \<Rightarrow> string + string) \<Rightarrow> loc_item list \<Rightarrow> OrderCustomer_body \<Rightarrow> verrors" where
  "OrderCustomer_errors EmailStr loc b =
     required (loc @ [Field ''name'']) (name_in b) @
     required_checked EmailStr (loc @ [Field ''email'']) (email_in b) @
     required (loc @ [Field ''phone'']) (phone_in b)"

definition OrderAddress_errors :: "loc_item list \<Rightarrow> OrderAddress_body \<Rightarrow> verrors" where
  "OrderAddress_errors loc b =
     required (loc @ [Field ''line1'']) (line1_in b) @
     required (loc @ [Field ''city'']) (city_in b)"

definition Order_errors :: "(string \<Rightarrow> string + string) \<Rightarrow> Order_body \<Rightarrow> verrors" where
  "Order_errors EmailStr b =
     (case items_in b of
        None \<Rightarrow> [([Field ''body'', Field ''items''], ''missing'')]
      | Some its \<Rightarrow>
          concat (map (\<lambda>(i, it). CartItem_errors [Field ''body'', Field ''items'', Index i] it)
                  (enumerate 0 its))) @
     required_ge0 [Field ''body'', Field ''amount''] (amount_in b) @
     required [Field ''body'', Field ''payment_provider''] (payment_provider_in b) @
     (case customer_in b of
        None \<Rightarrow> [([Field ''body'', Field ''customer''], ''missing'')]
      | Some c \<Rightarrow> OrderCustomer_errors EmailStr [Field ''body'', Field ''customer''] c) @
     (case address_in b of
        None \<Rightarrow> [([Field ''body'', Field ''address''], ''missing'')]
      | Some a \<Rightarrow> OrderAddress_errors [Field ''body'', Field ''address''] a)"

definition with_default :: "'a \<Rightarrow> 'a option \<Rightarrow> 'a" where
  "with_default d v = (case v of None \<Rightarrow> d | Some x \<Rightarrow> x)"

definition validate_CartItem :: "CartItem_body \<Rightarrow> CartItem" where
  "validate_CartItem b =
     \<lparr>product_id = the (product_id_in b), quantity = with_default 1 (quantity_in b)\<rparr>"

definition validate_OrderCustomer ::
  "(string \<Rightarrow> string + string) \<Rightarrow> OrderCustomer_body \<Rightarrow> OrderCustomer" where
  "validate_OrderCustomer EmailStr b =
     \<lparr>name = the (name_in b),
      email = checked_value EmailStr (email_in b),
      phone = the (phone_in b)\<rparr>"

definition validate_OrderAddress :: "OrderAddress_body \<Rightarrow> OrderAddress" where
  "validate_OrderAddress b =
     \<lparr>line1 = the (line1_in b),
      line2 = line2_in b,
      city = the (city_in b),
      state = state_in b,
      postal_code = postal_code_in b,
      country = with_default ''NG'' (country_in b)\<rparr>"

text \<open>
  Validation against \<^verbatim>\<open>Order\<close>. \<^verbatim>\<open>items\<close> is a \<^verbatim>\<open>List[CartItem]\<close> with no length
  constraint; \<^verbatim>\<open>payment_provider\<close> and \<^verbatim>\<open>status\<close> are plain \<^verbatim>\<open>str\<close> fields.
\<close>

definition validate_Order ::
  "(string \<Rightarrow> string + string) \<Rightarrow> Order_body \<Rightarrow> error + Order" where
  "validate_Order EmailStr b =
     (case Order_errors EmailStr b of
        e # es \<Rightarrow> Inl (RequestValidationError (e # es))
      | [] \<Rightarrow>
          Inr \<lparr>items = map validate_CartItem (the (items_in b)),
               amount = the (amount_in b),
               currency = with_default ''NGN'' (currency_in b),
               payment_provider = the (payment_provider_in b),
               payment_id = payment_id_in b,
               status = with_default ''pending'' (status_in b),
               customer = validate_OrderCustomer EmailStr (the (customer_in b)),
               address = validate_OrderAddress (the (address_in b)),
               delivery_option = with_default ''standard'' (delivery_option_in b),
               created_at = created_at_in b\<rparr>)"

definition CartItem_model_dump :: "CartItem \<Rightarrow> bson" where
  "CartItem_model_dump it =
     BDict [(''product_id'', BStr (product_id it)), (''quantity'', BInt (quantity it))]"

definition OrderCustomer_model_dump :: "OrderCustomer \<Rightarrow> bson" where
  "OrderCustomer_model_dump c =
     BDict [(''name'', BStr (name c)), (''email'', BStr (email c)), (''phone'', BStr (phone c))]"

definition OrderAddress_model_dump :: "OrderAddress \<Rightarrow> bson" where
  "OrderAddress_model_dump a =
     BDict [(''line1'', BStr (line1 a)), (''line2'', dump_opt (line2 a)),
            (''city'', BStr (city a)), (''state'', dump_opt (state a)),
            (''postal_code'', dump_opt (postal_code a)), (''country'', BStr (country a))]"

definition Order_model_dump :: "Order \<Rightarrow> document" where
  "Order_model_dump ord =
     [''items'' \<mapsto> BList (map CartItem_model_dump (items ord)),
      ''amount'' \<mapsto> BFloat (amount ord),
      ''currency'' \<mapsto> BStr (currency ord),
      ''payment_provider'' \<mapsto> BStr (payment_provider ord),
      ''payment_id'' \<mapsto> dump_opt (payment_id ord),
      ''status'' \<mapsto> BStr (status ord),
      ''customer'' \<mapsto> OrderCustomer_model_dump (customer ord),
      ''address'' \<mapsto> OrderAddress_model_dump (address ord),
      ''delivery_option'' \<mapsto> BStr (delivery_option ord),
      ''created_at'' \<mapsto> (case created_at ord of None \<Rightarrow> BNull | Some ts \<Rightarrow> BDatetime ts)]"

section \<open>Resource handlers (main.py)\<close>

text \<open>
  Each handler takes the database and returns its result, or the fault it raises, with
  the database afterwards. In
  \<^verbatim>\<open>db["product"].find_one({"_id": _oid(product_id)})\<close> the argument is evaluated before
  the call, so a fault of \<^verbatim>\<open>_oid\<close> leaves the handler before the driver is called. An
  exception of the driver leaves the handler as it is.
\<close>

text \<open>The dictionary \<^verbatim>\<open>q\<close> of \<^verbatim>\<open>list_products\<close> (lines 88-92): \<^verbatim>\<open>if category:\<close> is false
  for \<^verbatim>\<open>None\<close> and for the empty string; \<^verbatim>\<open>if featured is not None:\<close> only for \<^verbatim>\<open>None\<close>.\<close>

definition list_products_q :: "string option \<Rightarrow> bool option \<Rightarrow> query" where
  "list_products_q cat feat =
     (case cat of None \<Rightarrow> [] | Some c \<Rightarrow> if c = [] then [] else [(''category'', BStr c)]) @
     (case feat of None \<Rightarrow> [] | Some f \<Rightarrow> [(''featured'', BBool f)])"

text \<open>A list comprehension over a function that may raise: the first fault ends it.\<close>

fun collect :: "('a \<Rightarrow> error + 'b) \<Rightarrow> 'a list \<Rightarrow> error + 'b list" where
  "collect f [] = Inr []"
| "collect f (x # xs) =
     (case f x of
        Inl e \<Rightarrow> Inl e
      | Inr y \<Rightarrow> (case collect f xs of Inl e \<Rightarrow> Inl e | Inr ys \<Rightarrow> Inr (y # ys)))"

definition list_products ::
  "(bson \<Rightarrow> string) \<Rightarrow> string option \<Rightarrow> bool option \<Rightarrow> database
     \<Rightarrow> (error + document option list) \<times> database" where
  "list_products other cat feat db =
     (let (found, db') = get_documents ''product'' (list_products_q cat feat) None db
      in (collect (doc_with_id other) found, db'))"

definition get_product ::
  "(bson \<Rightarrow> string) \<Rightarrow> string \<Rightarrow> database \<Rightarrow> (error + document option) \<times> database" where
  "get_product other pid db =
     (case p_oid pid of
        Inl e \<Rightarrow> (Inl e, db)
      | Inr oid \<Rightarrow>
          (let (doc, db') = find_one ''product'' [(''_id'', BOid oid)] db in
           case doc of
             None \<Rightarrow> (Inl (HTTPException 404 ''Product not found''), db')
           | Some d \<Rightarrow>
               if d = Map.empty then (Inl (HTTPException 404 ''Product not found''), db')
               else (doc_with_id other d, db')))"

definition create_product ::
  "Product \<Rightarrow> ObjectId \<Rightarrow> database \<Rightarrow> (error + document) \<times> database" where
  "create_product p new_id db =
     (let (id_str, db') = create_document ''product'' (map_of (Product_model_dump p)) new_id db
      in (Inr [''id'' \<mapsto> BStr id_str], db'))"

definition update_product ::
  "string \<Rightarrow> Product \<Rightarrow> database \<Rightarrow> (error + document) \<times> database" where
  "update_product pid p db =
     (let data = Product_model_dump p in
      case p_oid pid of
        Inl e \<Rightarrow> (Inl e, db)
      | Inr oid \<Rightarrow>
          (let (res, db') = update_one ''product'' [(''_id'', BOid oid)] data db in
           case res of
             Inl e \<Rightarrow> (Inl e, db')
           | Inr matched_count \<Rightarrow>
               if matched_count = 0 then (Inl (HTTPException 404 ''Product not found''), db')
               else (Inr [''id'' \<mapsto> BStr pid, ''updated'' \<mapsto> BBool True], db')))"

definition delete_product :: "string \<Rightarrow> database \<Rightarrow> (error + document) \<times> database" where
  "delete_product pid db =
     (case p_oid pid of
        Inl e \<Rightarrow> (Inl e, db)
      | Inr oid \<Rightarrow>
          (let (deleted_count, db') = delete_one ''product'' [(''_id'', BOid oid)] db in
           if deleted_count = 0 then (Inl (HTTPException 404 ''Product not found''), db')
           else (Inr [''deleted'' \<mapsto> BBool True], db')))"

definition create_order ::
  "Order \<Rightarrow> ObjectId \<Rightarrow> database \<Rightarrow> (error + document) \<times> database" where
  "create_order ord new_id db =
     (let (id_str, db') = create_document ''order'' (Order_model_dump ord) new_id db
      in (Inr [''id'' \<mapsto> BStr id_str], db'))"

text \<open>
  The routes with a request body: FastAPI validates the body against the handler's
  model first and answers a validation fault without calling the handler.
\<close>

definition post_products ::
  "(string \<Rightarrow> string + string) \<Rightarrow> Product_body \<Rightarrow> ObjectId \<Rightarrow> database
     \<Rightarrow> (error + document) \<times> database" where
  "post_products HttpUrl body new_id db =
     (case validate_Product HttpUrl body of
        Inl e \<Rightarrow> (Inl e, db)
      | Inr p \<Rightarrow> create_product p new_id db)"

definition put_products ::
  "(string \<Rightarrow> string + string) \<Rightarrow> string \<Rightarrow> Product_body \<Rightarrow> database
     \<Rightarrow> (error + document) \<times> database" where
  "put_products HttpUrl pid body db =
     (case validate_Product HttpUrl body of
        Inl e \<Rightarrow> (Inl e, db)
      | Inr p \<Rightarrow> update_product pid p db)"

definition post_orders ::
  "(string \<Rightarrow> string + string) \<Rightarrow> Order_body \<Rightarrow> ObjectId \<Rightarrow> database
     \<Rightarrow> (error + document) \<times> database" where
  "post_orders EmailStr body new_id db =
     (case validate_Order EmailStr body of
        Inl e \<Rightarrow> (Inl e, db)
      | Inr ord \<Rightarrow> create_order ord new_id db)"

section \<open>Notions used in the statements\<close>

text \<open>The letters A to F in lower case; every other character unchanged.\<close>

definition lower_hex :: "char \<Rightarrow> char" where
  "lower_hex c = (case map_of (zip ''ABCDEF'' ''abcdef'') c of Some l \<Rightarrow> l | None \<Rightarrow> c)"

text \<open>Concrete inputs for the examples: a \<^verbatim>\<open>str\<close> for the other values, an empty database.\<close>

definition no_str :: "bson \<Rightarrow> string" where
  "no_str v = []"

definition empty_db :: database where
  "empty_db = \<lparr>colls = (\<lambda>c. []), calls = []\<rparr>"

text \<open>
  MongoDB keeps \<^verbatim>\<open>_id\<close> unique within a collection: no two documents of the list carry
  the same \<^verbatim>\<open>_id\<close>.
\<close>

definition unique_ids :: "document list \<Rightarrow> bool" where
  "unique_ids docs = distinct (map (\<lambda>d. d ''_id'') docs)"

text \<open>The field names of \<^verbatim>\<open>Product\<close>, the keys of \<^verbatim>\<open>product.model_dump()\<close>.\<close>

definition Product_fields :: "string list" where
  "Product_fields = [''title'', ''description'', ''price'', ''category'', ''subcategory'',
     ''images'', ''in_stock'', ''featured'', ''tags'']"

text \<open>
  More concrete inputs: the identifier \<^verbatim>\<open>507f1f77bcf86cd799439011\<close>, two products, and a
  database whose one product document carries a field \<^verbatim>\<open>sku\<close> that is not of the schema.
\<close>

definition oid1 :: ObjectId where
  "oid1 = ObjectId [80, 127, 31, 119, 188, 248, 108, 215, 153, 67, 144, 17]"

definition box_braids :: Product where
  "box_braids =
     \<lparr>title = ''Box Braids'', description = None, price = 25, category = ''braids'',
      subcategory = None, images = [], in_stock = True, featured = False, tags = []\<rparr>"

definition box_braids_sale :: Product where
  "box_braids_sale = box_braids\<lparr>price := 20, featured := True\<rparr>"

definition legacy_doc :: document where
  "legacy_doc =
     (map_of (Product_model_dump box_braids))(''_id'' \<mapsto> BOid oid1, ''sku'' \<mapsto> BStr ''X1'')"

definition shop_db :: database where
  "shop_db = \<lparr>colls = (\<lambda>c. [])(''product'' := [legacy_doc]), calls = []\<rparr>"

text \<open>
  The equalities of the product filters, the output form of a stored document (the
  \<^verbatim>\<open>_id\<close> field replaced by its string under \<^verbatim>\<open>id\<close>), and MongoDB's guarantee that a stored
  document has an \<^verbatim>\<open>_id\<close>.
\<close>

definition category_is :: "string \<Rightarrow> document \<Rightarrow> bool" where
  "category_is c d = (d ''category'' = Some (BStr c))"

definition featured_is :: "bool \<Rightarrow> document \<Rightarrow> bool" where
  "featured_is f d = (d ''featured'' = Some (BBool f))"

definition shaped :: "(bson \<Rightarrow> string) \<Rightarrow> document \<Rightarrow> document" where
  "shaped other d = (d(''_id'' := None))(''id'' \<mapsto> BStr (py_str other (the (d ''_id''))))"

definition has_id :: "document \<Rightarrow> bool" where
  "has_id d = (d ''_id'' \<noteq> None)"

text \<open>
  Concrete request bodies: the product of the spec's scenario, the same with a negative
  price and with an image whose \<^verbatim>\<open>url\<close> is no URL. \<open>example_HttpUrl\<close> stands for the
  \<^verbatim>\<open>HttpUrl\<close> check in the examples only.
\<close>

definition example_HttpUrl :: "string \<Rightarrow> string + string" where
  "example_HttpUrl s =
     (if take 7 s = ''http://'' \<or> take 8 s = ''https://'' then Inr s else Inl ''url_parsing'')"

definition box_braids_body :: Product_body where
  "box_braids_body =
     \<lparr>title_in = Some ''Box Braids'', description_in = None, price_in = Some 25,
      category_in = Some ''braids'', subcategory_in = None, images_in = None,
      in_stock_in = None, featured_in = None, tags_in = None\<rparr>"

definition negative_price_body :: Product_body where
  "negative_price_body = box_braids_body\<lparr>price_in := Some (- 1)\<rparr>"

definition bad_url_body :: Product_body where
  "bad_url_body =
     box_braids_body\<lparr>images_in := Some [\<lparr>url_in = Some ''braids.png'', alt_in = None\<rparr>]\<rparr>"


text \<open>A product with a description, one image and a tag, as a request body and validated.\<close>

definition wig_body :: Product_body where
  "wig_body =
     \<lparr>title_in = Some ''Lace Wig'', description_in = Some ''Glueless lace front'',
      price_in = Some 120, category_in = Some ''extensions'', subcategory_in = None,
      images_in = Some [\<lparr>url_in = Some ''https://example.com/wig.png'', alt_in = Some ''front''\<rparr>],
      in_stock_in = Some False, featured_in = None, tags_in = Some [''wig'']\<rparr>"

definition wig :: Product where
  "wig =
     \<lparr>title = ''Lace Wig'', description = Some ''Glueless lace front'', price = 120,
      category = ''extensions'', subcategory = None,
      images = [\<lparr>url = ''https://example.com/wig.png'', alt = Some ''front''\<rparr>],
      in_stock = False, featured = False, tags = [''wig'']\<rparr>"

text \<open>
  A concrete order body with no items, a payment provider and a status outside the
  documented values. \<open>example_EmailStr\<close> stands for the \<^verbatim>\<open>EmailStr\<close> check in the examples
  only.
\<close>

definition example_EmailStr :: "string \<Rightarrow> string + string" where
  "example_EmailStr s = (if CHR ''@'' \<in> set s then Inr s else Inl ''value_error'')"

definition counter_order_body :: Order_body where
  "counter_order_body =
     \<lparr>items_in = Some [], amount_in = Some 0, currency_in = None,
      payment_provider_in = Some ''cash-on-delivery'', payment_id_in = None,
      status_in = Some ''awaiting pickup'',
      customer_in = Some \<lparr>name_in = Some ''Ada'', email_in = Some ''ada@example.com'',
                            phone_in = Some ''0800''\<rparr>,
      address_in = Some \<lparr>line1_in = Some ''1 Marina Road'', line2_in = None,
                           city_in = Some ''Lagos'', state_in = None, postal_code_in = None,
                           country_in = None\<rparr>,
      delivery_option_in = None, created_at_in = None\<rparr>"

section \<open>The identifier codec: properties\<close>

lemma digit_value_less: "digit_value c = Some h \<Longrightarrow> h < 16"
  by (auto simp: digit_value_def split: if_splits)

lemma hexdigit_digit_value: "digit_value c = Some h \<Longrightarrow> hexdigit h = lower_hex c"
  by (auto simp: digit_value_def hexdigit_def lower_hex_def split: if_splits)

lemma digit_not_space: "digit_value c = Some h \<Longrightarrow> \<not> isspace c"
  by (auto simp: digit_value_def isspace_def split: if_splits)

lemma lower_hex_id: "c \<notin> set ''ABCDEF'' \<Longrightarrow> lower_hex c = c"
  by (auto simp: lower_hex_def)

lemma unat_byte: "n < 256 \<Longrightarrow> unat (of_nat n :: 8 word) = n"
  by (simp only: unat_of_nat) (simp add: take_bit_nat_eq_self)

lemma byte_nibbles:
  assumes "h < 16" "l < 16"
  shows "unat (of_nat (16 * h + l) :: 8 word) div 16 = h"
    and "unat (of_nat (16 * h + l) :: 8 word) mod 16 = l"
proof -
  from assms have "16 * h + l < 256" by arith
  then have eq: "unat (of_nat (16 * h + l) :: 8 word) = 16 * h + l" by (rule unat_byte)
  from assms show "unat (of_nat (16 * h + l) :: 8 word) div 16 = h" unfolding eq by simp
  from assms show "unat (of_nat (16 * h + l) :: 8 word) mod 16 = l" unfolding eq by simp
qed

lemma hexlify_Cons:
  "hexlify (b # bs) = hexdigit (unat b div 16) # hexdigit (unat b mod 16) # hexlify bs"
  by (simp add: hexlify_def)

lemma fromhex_digits:
  "\<forall>c \<in> set s. digit_value c \<noteq> None \<Longrightarrow> even (length s) \<Longrightarrow>
   \<exists>bs. fromhex s = Some bs \<and> hexlify bs = map lower_hex s"
proof (induction s rule: fromhex.induct)
  case 1
  show ?case by (simp add: hexlify_def)
next
  case (2 c cs)
  from "2.prems" obtain hi where hi: "digit_value c = Some hi" by auto
  then have nsp: "\<not> isspace c" by (rule digit_not_space)
  from "2.prems" obtain d ds where cs: "cs = d # ds" by (cases cs) auto
  with "2.prems" obtain lo where lo: "digit_value d = Some lo" by auto
  from "2.prems" cs have "\<forall>c \<in> set ds. digit_value c \<noteq> None" "even (length ds)" by auto
  with "2.IH"(2)[OF nsp hi cs lo] obtain bs
    where bs: "fromhex ds = Some bs" "hexlify bs = map lower_hex ds" by blast
  have "fromhex (c # cs) = Some (of_nat (16 * hi + lo) # bs)"
    using nsp hi cs lo bs by simp
  moreover have "hexlify (of_nat (16 * hi + lo) # bs) = map lower_hex (c # cs)"
    using bs cs hexdigit_digit_value[OF hi] hexdigit_digit_value[OF lo]
      byte_nibbles[OF digit_value_less[OF hi] digit_value_less[OF lo]]
    by (simp add: hexlify_Cons)
  ultimately show ?case by blast
qed

lemma fromhex_bad_char:
  "c \<in> set s \<Longrightarrow> \<not> isspace c \<Longrightarrow> digit_value c = None \<Longrightarrow> fromhex s = None"
proof (induction s rule: fromhex.induct)
  case 1
  then show ?case by simp
next
  case (2 x xs)
  show ?case
  proof (cases "isspace x")
    case True
    with "2.prems" have "c \<in> set xs" by auto
    with "2.IH"(1)[OF True] "2.prems" True show ?thesis by simp
  next
    case nsp: False
    show ?thesis
    proof (cases "digit_value x")
      case None
      with nsp show ?thesis by simp
    next
      case (Some hi)
      show ?thesis
      proof (cases xs)
        case Nil
        with nsp Some show ?thesis by simp
      next
        case (Cons d ds)
        show ?thesis
        proof (cases "digit_value d")
          case None
          with nsp Some Cons show ?thesis by simp
        next
          case lo: (Some lo)
          from "2.prems" Some lo Cons have "c \<in> set ds" by auto
          with "2.IH"(2)[OF nsp Some Cons lo] "2.prems" have "fromhex ds = None" by simp
          with nsp Some Cons lo show ?thesis by simp
        qed
      qed
    qed
  qed
qed

lemma p_oid_invalid:
  assumes "length s \<noteq> 24 \<or> (\<exists>c \<in> set s. \<not> isspace c \<and> digit_value c = None)"
  shows "p_oid s = Inl (HTTPException 400 ''Invalid id'')"
proof (cases "length s = 24")
  case False
  then show ?thesis by (simp add: p_oid_def ObjectId_validate_def)
next
  case True
  with assms obtain c where "c \<in> set s" "\<not> isspace c" "digit_value c = None" by blast
  then have "fromhex s = None" by (rule fromhex_bad_char)
  with True show ?thesis by (simp add: p_oid_def ObjectId_validate_def)
qed

text \<open>
  C1 (as amended). For every string \<open>s\<close> of 24 hexadecimal digits, \<^verbatim>\<open>_oid\<close> decodes \<open>s\<close>, and
  the string rendering of the result, which \<^verbatim>\<open>_doc_with_id\<close> puts under \<^verbatim>\<open>"id"\<close>, is \<open>s\<close>
  with the letters A to F in lower case; it is \<open>s\<close> itself when \<open>s\<close> has no upper-case
  digit.
\<close>

theorem C1_roundtrip_lowercase:
  assumes "length s = 24" and "\<forall>c \<in> set s. digit_value c \<noteq> None"
  shows "\<exists>oid. p_oid s = Inr oid \<and> ObjectId_str oid = map lower_hex s \<and>
           doc_with_id other [''_id'' \<mapsto> BOid oid] = Inr (Some [''id'' \<mapsto> BStr (map lower_hex s)]) \<and>
           ((\<forall>c \<in> set s. c \<notin> set ''ABCDEF'') \<longrightarrow> ObjectId_str oid = s)"
proof -
  from assms obtain bs where bs: "fromhex s = Some bs" "hexlify bs = map lower_hex s"
    using fromhex_digits[of s] by auto
  have 1: "p_oid s = Inr (ObjectId bs)"
    using assms(1) bs(1) by (simp add: p_oid_def ObjectId_validate_def)
  have 2: "ObjectId_str (ObjectId bs) = map lower_hex s"
    using bs(2) by (simp add: ObjectId_str_def)
  have 3: "doc_with_id other [''_id'' \<mapsto> BOid (ObjectId bs)] = Inr (Some [''id'' \<mapsto> BStr (map lower_hex s)])"
    using 2 by (simp add: doc_with_id_def py_str_def)
  have 4: "(\<forall>c \<in> set s. c \<notin> set ''ABCDEF'') \<longrightarrow> ObjectId_str (ObjectId bs) = s"
  proof
    assume "\<forall>c \<in> set s. c \<notin> set ''ABCDEF''"
    then have "map lower_hex s = s" by (intro map_idI) (simp add: lower_hex_id)
    with 2 show "ObjectId_str (ObjectId bs) = s" by simp
  qed
  from 1 2 3 4 show ?thesis by blast
qed

text \<open>C1 at the identifier \<^verbatim>\<open>507f1f77bcf86cd799439011\<close>.\<close>

theorem C1_roundtrip_lowercase_witness:
  "\<exists>oid. p_oid ''507f1f77bcf86cd799439011'' = Inr oid \<and>
         ObjectId_str oid = ''507f1f77bcf86cd799439011''"
proof -
  have len: "length ''507f1f77bcf86cd799439011'' = 24" by simp
  have hex: "\<forall>c \<in> set ''507f1f77bcf86cd799439011''. digit_value c \<noteq> None"
    by (simp add: digit_value_def)
  have low: "map lower_hex ''507f1f77bcf86cd799439011'' = ''507f1f77bcf86cd799439011''"
    by (simp add: lower_hex_def)
  from C1_roundtrip_lowercase[OF len hex, of no_str] low show ?thesis by metis
qed

text \<open>
  C1 as stated fails at \<^verbatim>\<open>507F1F77BCF86CD799439011\<close>, a string of 24 hexadecimal digits:
  it decodes, and the rendering of the result is in lower case, not the string given.
\<close>

theorem C1_uppercase_counterexample:
  "p_oid ''507F1F77BCF86CD799439011'' = Inr (ObjectId [80, 127, 31, 119, 188, 248, 108, 215, 153, 67, 144, 17]) \<and>
   ObjectId_str (ObjectId [80, 127, 31, 119, 188, 248, 108, 215, 153, 67, 144, 17]) = ''507f1f77bcf86cd799439011'' \<and>
   ''507f1f77bcf86cd799439011'' \<noteq> ''507F1F77BCF86CD799439011''"
  by (simp add: p_oid_def ObjectId_validate_def digit_value_def isspace_def ObjectId_str_def
      hexlify_def hexdigit_def)

section \<open>Malformed identifiers\<close>

text \<open>
  C3 (as amended). For every identifier string whose length is not 24, or that holds a
  character that is neither a hexadecimal digit nor ASCII whitespace, each of
  \<^verbatim>\<open>GET\<close>, \<^verbatim>\<open>PUT\<close> and \<^verbatim>\<open>DELETE /products/{id}\<close> fails with the 400 fault of \<^verbatim>\<open>_oid\<close>, and
  the database, with the list of the calls made to it, is as before.
\<close>

theorem C3_malformed_id:
  assumes "length s \<noteq> 24 \<or> (\<exists>c \<in> set s. \<not> isspace c \<and> digit_value c = None)"
  shows "get_product other s db = (Inl (HTTPException 400 ''Invalid id''), db) \<and>
         update_product s p db = (Inl (HTTPException 400 ''Invalid id''), db) \<and>
         delete_product s db = (Inl (HTTPException 400 ''Invalid id''), db)"
  using p_oid_invalid[OF assms]
  by (simp add: get_product_def update_product_def delete_product_def)

text \<open>C3 at the identifier \<^verbatim>\<open>not-an-id\<close> and on the empty database.\<close>

theorem C3_malformed_id_witness:
  "get_product no_str ''not-an-id'' empty_db = (Inl (HTTPException 400 ''Invalid id''), empty_db) \<and>
   update_product ''not-an-id'' box_braids empty_db =
     (Inl (HTTPException 400 ''Invalid id''), empty_db) \<and>
   delete_product ''not-an-id'' empty_db = (Inl (HTTPException 400 ''Invalid id''), empty_db)"
proof -
  have "length ''not-an-id'' \<noteq> 24 \<or>
        (\<exists>c \<in> set ''not-an-id''. \<not> isspace c \<and> digit_value c = None)"
    by simp
  from C3_malformed_id[OF this, of no_str empty_db box_braids] show ?thesis by simp
qed

text \<open>
  C3 as stated fails at a string of 22 hexadecimal digits and two spaces: it has 24
  characters, the space is no hexadecimal digit, and yet \<^verbatim>\<open>_oid\<close> accepts it (as an
  identifier of 11 bytes), so that \<^verbatim>\<open>GET /products/{id}\<close> does not answer the 400 fault
  and calls \<^verbatim>\<open>find_one\<close>.
\<close>

theorem C3_whitespace_counterexample:
  "length ''0123456789abcdef012345  '' = 24 \<and> digit_value CHR '' '' = None \<and>
   p_oid ''0123456789abcdef012345  '' =
     Inr (ObjectId [1, 35, 69, 103, 137, 171, 205, 239, 1, 35, 69]) \<and>
   fst (get_product no_str ''0123456789abcdef012345  '' empty_db) \<noteq>
     Inl (HTTPException 400 ''Invalid id'') \<and>
   calls (snd (get_product no_str ''0123456789abcdef012345  '' empty_db)) =
     [Find_one ''product'']"
  by (simp add: get_product_def p_oid_def ObjectId_validate_def digit_value_def isspace_def
      find_one_def empty_db_def)

section \<open>Lookup, update and delete by identifier\<close>

lemma matches_id [simp]: "matches [(''_id'', v)] d \<longleftrightarrow> d ''_id'' = Some v"
  by (simp add: matches_def)

lemma find_no_match:
  "\<forall>d \<in> set docs. \<not> P d \<Longrightarrow> find P docs = None"
  by (simp add: find_None_iff)

lemma delete_first_no_match:
  "\<forall>d \<in> set docs. \<not> P d \<Longrightarrow> delete_first P docs = docs"
  by (induction docs) auto

lemma set_first_no_match:
  "\<forall>d \<in> set docs. \<not> P d \<Longrightarrow> set_first P data docs = docs"
  by (induction docs) auto

lemma find_match:
  "d \<in> set docs \<Longrightarrow> P d \<Longrightarrow> find P docs \<noteq> None"
  by (auto simp: find_None_iff)

lemma delete_first_unique:
  "unique_ids docs \<Longrightarrow>
   \<forall>d \<in> set (delete_first (\<lambda>d. d ''_id'' = Some v) docs). d ''_id'' \<noteq> Some v"
proof (induction docs)
  case Nil
  then show ?case by simp
next
  case (Cons d ds)
  show ?case
  proof (cases "d ''_id'' = Some v")
    case True
    from Cons.prems have "d ''_id'' \<notin> (\<lambda>d. d ''_id'') ` set ds"
      by (simp add: unique_ids_def)
    with True have "\<forall>x \<in> set ds. x ''_id'' \<noteq> Some v" by (metis imageI)
    with True show ?thesis by simp
  next
    case False
    from Cons.prems have "unique_ids ds" by (simp add: unique_ids_def)
    with Cons.IH False show ?thesis by simp
  qed
qed

lemma set_first_unique:
  "unique_ids docs \<Longrightarrow> i < length docs \<Longrightarrow> (docs ! i) ''_id'' = Some v \<Longrightarrow>
   set_first (\<lambda>d. d ''_id'' = Some v) data docs = docs[i := (docs ! i) ++ data]"
proof (induction docs arbitrary: i)
  case Nil
  then show ?case by simp
next
  case (Cons d ds)
  show ?case
  proof (cases "d ''_id'' = Some v")
    case True
    have "i = 0"
    proof (rule ccontr)
      assume "i \<noteq> 0"
      then obtain j where j: "i = Suc j" by (cases i) auto
      with Cons.prems have "ds ! j \<in> set ds" "(ds ! j) ''_id'' = Some v" by auto
      with True have "d ''_id'' \<in> (\<lambda>d. d ''_id'') ` set ds" by (metis imageI)
      with Cons.prems(1) show False by (simp add: unique_ids_def)
    qed
    with True show ?thesis by simp
  next
    case False
    with Cons.prems obtain j where j: "i = Suc j" by (cases i) auto
    from Cons.prems have "unique_ids ds" by (simp add: unique_ids_def)
    from Cons.IH[OF this, of j] Cons.prems j False show ?thesis by simp
  qed
qed

lemma p_oid_example: "p_oid ''507f1f77bcf86cd799439011'' = Inr oid1"
  by (simp add: p_oid_def ObjectId_validate_def digit_value_def isspace_def oid1_def)

lemma dom_Product_model_dump: "dom (map_of (Product_model_dump p)) = set Product_fields"
  by (simp add: dom_map_of_conv_image_fst Product_model_dump_def Product_fields_def)

lemma encodable_dump_opt: "encodable (dump_opt v)"
  by (cases v) (simp_all add: dump_opt_def)

lemma encodable_images:
  "list_all encodable (map ProductImage_model_dump ims) \<longleftrightarrow> ims = []"
  by (cases ims) (simp_all add: ProductImage_model_dump_def)

lemma encodable_tags: "list_all encodable (map BStr ts)"
  by (induction ts) simp_all

lemma encodable_Product_model_dump:
  "encodable_items (Product_model_dump p) \<longleftrightarrow> images p = []"
  by (cases "images p")
     (simp_all add: encodable_items_def Product_model_dump_def encodable_dump_opt
        encodable_tags ProductImage_model_dump_def)

text \<open>
  A payload with an image cannot be written by \<^verbatim>\<open>PUT /products/{id}\<close>: whatever the
  identifier \<^verbatim>\<open>_oid\<close> decodes, \<^verbatim>\<open>update_one\<close> raises \<^verbatim>\<open>InvalidDocument\<close> and the collections
  are as before.
\<close>

lemma update_product_with_images:
  assumes "p_oid s = Inr oid" and "images p \<noteq> []"
  shows "update_product s p db =
           (Inl InvalidDocument, db\<lparr>calls := calls db @ [Update_one ''product'']\<rparr>)"
  using assms
  by (simp add: update_product_def update_one_def encodable_Product_model_dump)

text \<open>
  For every identifier that \<^verbatim>\<open>_oid\<close> decodes and that no stored product document
  carries, \<^verbatim>\<open>GET\<close> and \<^verbatim>\<open>DELETE /products/{id}\<close> answer the 404 fault
  \<^verbatim>\<open>Product not found\<close>, and so does \<^verbatim>\<open>PUT\<close> with a payload that has no images: the find
  result is absent, the matched and the deleted count are 0, and the collections are as
  before.
\<close>

lemma not_found_by_id:
  assumes "p_oid s = Inr oid"
    and "\<forall>d \<in> set (colls db ''product''). d ''_id'' \<noteq> Some (BOid oid)"
  shows "fst (get_product other s db) = Inl (HTTPException 404 ''Product not found'') \<and>
         fst (delete_product s db) = Inl (HTTPException 404 ''Product not found'') \<and>
         fst (find_one ''product'' [(''_id'', BOid oid)] db) = None \<and>
         fst (delete_one ''product'' [(''_id'', BOid oid)] db) = 0 \<and>
         colls (snd (delete_product s db)) = colls db \<and>
         (images p = [] \<longrightarrow>
            fst (update_product s p db) = Inl (HTTPException 404 ''Product not found'') \<and>
            fst (update_one ''product'' [(''_id'', BOid oid)] (Product_model_dump p) db) = Inr 0 \<and>
            colls (snd (update_product s p db)) = colls db)"
proof -
  let ?P = "matches [(''_id'', BOid oid)]"
  from assms(2) have nm: "\<forall>d \<in> set (colls db ''product''). \<not> ?P d" by simp
  have f: "find ?P (colls db ''product'') = None" using nm by (rule find_no_match)
  have d: "delete_first ?P (colls db ''product'') = colls db ''product''"
    using nm by (rule delete_first_no_match)
  have u: "set_first ?P (map_of (Product_model_dump p)) (colls db ''product'') =
      colls db ''product''"
    using nm by (rule set_first_no_match)
  show ?thesis
    using assms(1) f d u
    by (simp add: get_product_def update_product_def delete_product_def find_one_def
        update_one_def delete_one_def encodable_Product_model_dump)
qed

lemma validate_wig: "validate_Product example_HttpUrl wig_body = Inr wig"
  by (simp add: validate_Product_def Product_errors_def required_def required_ge0_def
      ProductImage_errors_def required_checked_def validate_ProductImage_def checked_value_def
      example_HttpUrl_def wig_body_def wig_def)

text \<open>
  C7 fails on the code for \<^verbatim>\<open>PUT /products/{id}\<close> with a payload that has an image. The
  identifier \<^verbatim>\<open>507f1f77bcf86cd799439011\<close> is well-formed, the database holds no product,
  the body validates as a \<^verbatim>\<open>Product\<close>, and the handler raises \<^verbatim>\<open>InvalidDocument\<close> where a
  404 fault is due: \<^verbatim>\<open>model_dump()\<close> leaves the image's \<^verbatim>\<open>url\<close> a \<^verbatim>\<open>Url\<close> object, which
  \<^verbatim>\<open>update_one\<close> cannot encode.
\<close>

theorem C7_put_with_image_fault:
  "p_oid ''507f1f77bcf86cd799439011'' = Inr oid1 \<and>
   colls empty_db ''product'' = [] \<and>
   validate_Product example_HttpUrl wig_body = Inr wig \<and>
   fst (update_product ''507f1f77bcf86cd799439011'' wig empty_db) = Inl InvalidDocument \<and>
   fst (put_products example_HttpUrl ''507f1f77bcf86cd799439011'' wig_body empty_db) =
     Inl InvalidDocument \<and>
   fst (get_product no_str ''507f1f77bcf86cd799439011'' empty_db) =
     Inl (HTTPException 404 ''Product not found'') \<and>
   fst (delete_product ''507f1f77bcf86cd799439011'' empty_db) =
     Inl (HTTPException 404 ''Product not found'')"
proof -
  have im: "images wig \<noteq> []" by (simp add: wig_def)
  have none: "\<forall>d \<in> set (colls empty_db ''product''). d ''_id'' \<noteq> Some (BOid oid1)"
    by (simp add: empty_db_def)
  have 1: "fst (update_product ''507f1f77bcf86cd799439011'' wig empty_db) = Inl InvalidDocument"
    by (simp add: update_product_with_images[OF p_oid_example im])
  have 2: "fst (put_products example_HttpUrl ''507f1f77bcf86cd799439011'' wig_body empty_db) =
      Inl InvalidDocument"
    using 1 by (simp add: put_products_def validate_wig)
  have 3: "colls empty_db ''product'' = []" by (simp add: empty_db_def)
  from not_found_by_id[OF p_oid_example none, of no_str wig] 1 2 3 p_oid_example validate_wig
  show ?thesis by simp
qed

text \<open>
  C6. For every identifier of a stored product, \<^verbatim>\<open>DELETE /products/{id}\<close> called twice
  in succession answers \<^verbatim>\<open>{"deleted": True}\<close> the first time (deleted count 1) and the 404
  fault the second time (deleted count 0).
\<close>

theorem C6_delete_twice:
  assumes "unique_ids (colls db ''product'')"
    and "p_oid s = Inr oid"
    and "d \<in> set (colls db ''product'')"
    and "d ''_id'' = Some (BOid oid)"
  shows "fst (delete_product s db) = Inr [''deleted'' \<mapsto> BBool True] \<and>
         fst (delete_one ''product'' [(''_id'', BOid oid)] db) = 1 \<and>
         fst (delete_product s (snd (delete_product s db))) =
           Inl (HTTPException 404 ''Product not found'') \<and>
         fst (delete_one ''product'' [(''_id'', BOid oid)] (snd (delete_product s db))) = 0"
proof -
  let ?P = "matches [(''_id'', BOid oid)]"
  have P: "?P = (\<lambda>d. d ''_id'' = Some (BOid oid))" by (simp add: fun_eq_iff)
  have found: "find ?P (colls db ''product'') \<noteq> None"
    using assms(3,4) by (intro find_match[of d]) simp_all
  then have 1: "delete_product s db =
      (Inr [''deleted'' \<mapsto> BBool True],
       db\<lparr>colls := (colls db)(''product'' := delete_first ?P (colls db ''product'')),
          calls := calls db @ [Delete_one ''product'']\<rparr>)"
    using assms(2) by (simp add: delete_product_def delete_one_def)
  have "\<forall>x \<in> set (delete_first ?P (colls db ''product'')). \<not> ?P x"
    using delete_first_unique[OF assms(1), of "BOid oid"] unfolding P by simp
  then have gone: "find ?P (delete_first ?P (colls db ''product'')) = None"
    by (rule find_no_match)
  then have 2: "fst (delete_product s (snd (delete_product s db))) =
      Inl (HTTPException 404 ''Product not found'')"
    unfolding 1 using assms(2) by (simp add: delete_product_def delete_one_def)
  have 3: "fst (delete_one ''product'' [(''_id'', BOid oid)] db) = 1"
    using found by (simp add: delete_one_def)
  have 4: "fst (delete_one ''product'' [(''_id'', BOid oid)] (snd (delete_product s db))) = 0"
    unfolding 1 using gone by (simp add: delete_one_def)
  from 1 2 3 4 show ?thesis by simp
qed

text \<open>C6 on the database with one product.\<close>

theorem C6_delete_twice_witness:
  "fst (delete_product ''507f1f77bcf86cd799439011'' shop_db) = Inr [''deleted'' \<mapsto> BBool True] \<and>
   fst (delete_product ''507f1f77bcf86cd799439011''
          (snd (delete_product ''507f1f77bcf86cd799439011'' shop_db))) =
     Inl (HTTPException 404 ''Product not found'')"
proof -
  have 1: "unique_ids (colls shop_db ''product'')" by (simp add: unique_ids_def shop_db_def)
  have 3: "legacy_doc \<in> set (colls shop_db ''product'')" by (simp add: shop_db_def)
  have 4: "legacy_doc ''_id'' = Some (BOid oid1)" by (simp add: legacy_doc_def)
  from C6_delete_twice[OF 1 p_oid_example 3 4] show ?thesis by simp
qed

lemma put_products_valid:
  "validate_Product HttpUrl body = Inr p \<Longrightarrow>
   put_products HttpUrl s body db = update_product s p db"
  by (simp add: put_products_def)

text \<open>
  C2 (as amended). For every stored product document and every valid \<^verbatim>\<open>Product\<close> payload
  with no images, \<^verbatim>\<open>PUT /products/{id}\<close> answers \<^verbatim>\<open>{"id": id, "updated": True}\<close>, sets each
  of the nine \<^verbatim>\<open>Product\<close> fields of the matched document to the payload's value, and
  leaves the identifier, every other field of that document and every other document as
  they were.
\<close>

theorem C2_update_sets_fields:
  assumes "unique_ids (colls db ''product'')"
    and "p_oid s = Inr oid"
    and "i < length (colls db ''product'')"
    and "(colls db ''product'' ! i) ''_id'' = Some (BOid oid)"
    and "images p = []"
  shows "fst (update_product s p db) = Inr [''id'' \<mapsto> BStr s, ''updated'' \<mapsto> BBool True] \<and>
         colls (snd (update_product s p db)) ''product'' =
           (colls db ''product'')[i := (colls db ''product'' ! i) ++ map_of (Product_model_dump p)] \<and>
         (\<forall>k \<in> set Product_fields.
            (colls (snd (update_product s p db)) ''product'' ! i) k =
              map_of (Product_model_dump p) k) \<and>
         (\<forall>k. k \<notin> set Product_fields \<longrightarrow>
            (colls (snd (update_product s p db)) ''product'' ! i) k = (colls db ''product'' ! i) k) \<and>
         (colls (snd (update_product s p db)) ''product'' ! i) ''_id'' = Some (BOid oid)"
proof -
  let ?docs = "colls db ''product''"
  let ?P = "matches [(''_id'', BOid oid)]"
  let ?data = "map_of (Product_model_dump p)"
  have P: "?P = (\<lambda>d. d ''_id'' = Some (BOid oid))" by (simp add: fun_eq_iff)
  have enc: "encodable_items (Product_model_dump p)"
    using assms(5) by (simp add: encodable_Product_model_dump)
  from assms(3) have "?docs ! i \<in> set ?docs" by simp
  then have "find ?P ?docs \<noteq> None" using assms(4) by (intro find_match[of "?docs ! i"]) simp_all
  moreover have sf: "set_first ?P ?data ?docs = ?docs[i := (?docs ! i) ++ ?data]"
    unfolding P using assms(1,3,4) by (rule set_first_unique)
  ultimately have upd: "update_product s p db =
      (Inr [''id'' \<mapsto> BStr s, ''updated'' \<mapsto> BBool True],
       db\<lparr>colls := (colls db)(''product'' := ?docs[i := (?docs ! i) ++ ?data]),
          calls := calls db @ [Update_one ''product'']\<rparr>)"
    using assms(2) enc by (simp add: update_product_def update_one_def)
  have new: "colls (snd (update_product s p db)) ''product'' ! i = (?docs ! i) ++ ?data"
    unfolding upd using assms(3) by simp
  have a: "\<forall>k \<in> set Product_fields. ((?docs ! i) ++ ?data) k = ?data k"
  proof
    fix k assume "k \<in> set Product_fields"
    then have "k \<in> dom ?data" by (simp add: dom_Product_model_dump)
    then show "((?docs ! i) ++ ?data) k = ?data k" by (rule map_add_dom_app_simps(1))
  qed
  have b: "\<forall>k. k \<notin> set Product_fields \<longrightarrow> ((?docs ! i) ++ ?data) k = (?docs ! i) k"
  proof (intro allI impI)
    fix k assume "k \<notin> set Product_fields"
    then have "k \<notin> dom ?data" by (simp add: dom_Product_model_dump)
    then show "((?docs ! i) ++ ?data) k = (?docs ! i) k" by (rule map_add_dom_app_simps(3))
  qed
  have "''_id'' \<notin> set Product_fields" by (simp add: Product_fields_def)
  with b assms(4) have c: "((?docs ! i) ++ ?data) ''_id'' = Some (BOid oid)" by simp
  show ?thesis unfolding new using a b c unfolding upd by simp
qed

text \<open>C2 on the database with one product: the price is replaced, the identifier kept.\<close>

theorem C2_update_sets_fields_witness:
  "fst (update_product ''507f1f77bcf86cd799439011'' box_braids_sale shop_db) =
     Inr [''id'' \<mapsto> BStr ''507f1f77bcf86cd799439011'', ''updated'' \<mapsto> BBool True] \<and>
   (colls shop_db ''product'' ! 0) ''price'' = Some (BFloat 25) \<and>
   (colls (snd (update_product ''507f1f77bcf86cd799439011'' box_braids_sale shop_db)) ''product'' ! 0)
      ''price'' = Some (BFloat 20) \<and>
   (colls (snd (update_product ''507f1f77bcf86cd799439011'' box_braids_sale shop_db)) ''product'' ! 0)
      ''_id'' = Some (BOid oid1)"
proof -
  have 1: "unique_ids (colls shop_db ''product'')" by (simp add: unique_ids_def shop_db_def)
  have 3: "0 < length (colls shop_db ''product'')" by (simp add: shop_db_def)
  have 4: "(colls shop_db ''product'' ! 0) ''_id'' = Some (BOid oid1)"
    by (simp add: shop_db_def legacy_doc_def)
  have 5: "''price'' \<in> set Product_fields" by (simp add: Product_fields_def)
  have 6: "map_of (Product_model_dump box_braids_sale) ''price'' = Some (BFloat 20)"
    by (simp add: Product_model_dump_def box_braids_sale_def box_braids_def)
  have 7: "images box_braids_sale = []" by (simp add: box_braids_sale_def box_braids_def)
  have 8: "(colls shop_db ''product'' ! 0) ''price'' = Some (BFloat 25)"
    by (simp add: shop_db_def legacy_doc_def Product_model_dump_def box_braids_def)
  from C2_update_sets_fields[OF 1 p_oid_example 3 4 7] 5 6 8
  show ?thesis by metis
qed

text \<open>
  C2 as stated fails on the stored document with the field \<^verbatim>\<open>sku\<close>: the payload has no
  such field, and after the update the document still carries it.
\<close>

theorem C2_extra_field_counterexample:
  "fst (update_product ''507f1f77bcf86cd799439011'' box_braids_sale shop_db) =
     Inr [''id'' \<mapsto> BStr ''507f1f77bcf86cd799439011'', ''updated'' \<mapsto> BBool True] \<and>
   (colls shop_db ''product'' ! 0) ''sku'' = Some (BStr ''X1'') \<and>
   map_of (Product_model_dump box_braids_sale) ''sku'' = None \<and>
   (colls (snd (update_product ''507f1f77bcf86cd799439011'' box_braids_sale shop_db)) ''product'' ! 0)
      ''sku'' = Some (BStr ''X1'')"
proof -
  have enc: "encodable_items (Product_model_dump box_braids_sale)"
    by (simp add: encodable_Product_model_dump box_braids_sale_def box_braids_def)
  have none: "map_of (Product_model_dump box_braids_sale) ''sku'' = None"
    by (simp add: Product_model_dump_def)
  have old: "legacy_doc ''sku'' = Some (BStr ''X1'')" "legacy_doc ''_id'' = Some (BOid oid1)"
    by (simp_all add: legacy_doc_def)
  show ?thesis
    using enc none old
    by (simp add: update_product_def update_one_def p_oid_example shop_db_def map_add_def)
qed

section \<open>Listing products\<close>

lemma doc_with_id_shaped: "has_id d \<Longrightarrow> doc_with_id other d = Inr (Some (shaped other d))"
  by (auto simp: has_id_def doc_with_id_def shaped_def)

lemma collect_shaped:
  "list_all has_id docs \<Longrightarrow>
   collect (doc_with_id other) docs = Inr (map (\<lambda>d. Some (shaped other d)) docs)"
  by (induction docs) (simp_all add: doc_with_id_shaped)

lemma list_all_filter: "list_all P xs \<Longrightarrow> list_all P (filter Q xs)"
  by (induction xs) simp_all

lemma shaped_category: "category_is c (shaped other d) = category_is c d"
  by (simp add: category_is_def shaped_def)

lemma list_products_eq:
  "list_products other cat feat db =
     (collect (doc_with_id other) (filter (matches (list_products_q cat feat)) (colls db ''product'')),
      db\<lparr>calls := calls db @ [Find ''product'']\<rparr>)"
  by (simp add: list_products_def get_documents_def)

lemma matches_category:
  "c \<noteq> [] \<Longrightarrow> matches (list_products_q (Some c) None) = category_is c"
  by (simp add: fun_eq_iff matches_def list_products_q_def category_is_def)

lemma matches_both:
  "c \<noteq> [] \<Longrightarrow>
   matches (list_products_q (Some c) (Some f)) = (\<lambda>d. category_is c d \<and> featured_is f d)"
  by (simp add: fun_eq_iff matches_def list_products_q_def category_is_def featured_is_def)

lemma matches_featured:
  "matches (list_products_q None (Some f)) = featured_is f"
  by (simp add: fun_eq_iff matches_def list_products_q_def featured_is_def)

lemma matches_nothing: "matches [] = (\<lambda>d. True)"
  by (simp add: fun_eq_iff matches_def)

text \<open>
  C4 (as amended). \<^verbatim>\<open>GET /products\<close> with a non-empty \<^verbatim>\<open>category\<close> (such as
  \<^verbatim>\<open>"crochet"\<close>) returns, in output form, the stored documents whose \<^verbatim>\<open>category\<close> field
  equals it, and only documents with that category; with a non-empty \<^verbatim>\<open>category\<close> and
  \<^verbatim>\<open>featured\<close> both supplied, it returns exactly the documents satisfying both equalities.
\<close>

theorem C4_list_filters:
  assumes "c \<noteq> []" and "list_all has_id (colls db ''product'')"
  shows "fst (list_products other (Some c) None db) =
           Inr (map (\<lambda>d. Some (shaped other d)) (filter (category_is c) (colls db ''product''))) \<and>
         fst (list_products other (Some c) (Some f) db) =
           Inr (map (\<lambda>d. Some (shaped other d))
                 (filter (\<lambda>d. category_is c d \<and> featured_is f d) (colls db ''product''))) \<and>
         list_all (\<lambda>d. category_is c (shaped other d)) (filter (category_is c) (colls db ''product''))"
proof -
  have 1: "fst (list_products other (Some c) None db) =
      Inr (map (\<lambda>d. Some (shaped other d)) (filter (category_is c) (colls db ''product'')))"
    using assms
    by (simp add: list_products_eq matches_category collect_shaped list_all_filter)
  have 2: "fst (list_products other (Some c) (Some f) db) =
      Inr (map (\<lambda>d. Some (shaped other d))
            (filter (\<lambda>d. category_is c d \<and> featured_is f d) (colls db ''product'')))"
    using assms
    by (simp add: list_products_eq matches_both collect_shaped list_all_filter)
  have 3: "list_all (\<lambda>d. category_is c (shaped other d))
      (filter (category_is c) (colls db ''product''))"
    by (simp add: shaped_category list_all_iff)
  from 1 2 3 show ?thesis by simp
qed

text \<open>C4 on the database with one product, of category \<^verbatim>\<open>braids\<close> and not featured.\<close>

theorem C4_list_filters_witness:
  "fst (list_products no_str (Some ''braids'') (Some False) shop_db) =
     Inr [Some (shaped no_str legacy_doc)] \<and>
   fst (list_products no_str (Some ''crochet'') None shop_db) = Inr []"
proof -
  have 1: "''braids'' \<noteq> []" and 2: "''crochet'' \<noteq> []" by simp_all
  have 3: "list_all has_id (colls shop_db ''product'')"
    by (simp add: shop_db_def has_id_def legacy_doc_def)
  have 4: "category_is ''braids'' legacy_doc" "featured_is False legacy_doc"
    "\<not> category_is ''crochet'' legacy_doc"
    by (simp_all add: category_is_def featured_is_def legacy_doc_def Product_model_dump_def
        box_braids_def)
  have 5: "colls shop_db ''product'' = [legacy_doc]" by (simp add: shop_db_def)
  from C4_list_filters[OF 1 3, of no_str False] C4_list_filters[OF 2 3, of no_str False] 4
  show ?thesis unfolding 5 by simp
qed

text \<open>
  C4 as stated fails when the supplied \<^verbatim>\<open>category\<close> is the empty string: with
  \<^verbatim>\<open>category=""\<close> and \<^verbatim>\<open>featured=false\<close> the product of category \<^verbatim>\<open>braids\<close> is returned,
  though its category is not the empty string.
\<close>

theorem C4_empty_category_counterexample:
  "fst (list_products no_str (Some []) (Some False) shop_db) =
     Inr [Some (shaped no_str legacy_doc)] \<and>
   legacy_doc ''category'' = Some (BStr ''braids'') \<and>
   \<not> category_is [] legacy_doc"
proof -
  have 3: "has_id legacy_doc" by (simp add: has_id_def legacy_doc_def)
  have 4: "featured_is False legacy_doc" "legacy_doc ''category'' = Some (BStr ''braids'')"
    by (simp_all add: featured_is_def legacy_doc_def Product_model_dump_def box_braids_def)
  have 5: "colls shop_db ''product'' = [legacy_doc]" by (simp add: shop_db_def)
  have 6: "list_products_q (Some []) (Some False) = list_products_q None (Some False)"
    by (simp add: list_products_q_def)
  show ?thesis
    using 3 4 by (simp add: list_products_eq 5 6 matches_featured doc_with_id_shaped category_is_def)
qed

text \<open>
  C10. In \<^verbatim>\<open>GET /products\<close> a \<^verbatim>\<open>category\<close> equal to the empty string is treated as absent:
  the request is answered as without it, the filter has no \<^verbatim>\<open>category\<close> key, and alone it
  returns the products of every category. \<^verbatim>\<open>featured=false\<close> is applied as an equality
  filter: the filter is \<^verbatim>\<open>{"featured": False}\<close> and only the documents whose \<^verbatim>\<open>featured\<close>
  field is \<^verbatim>\<open>False\<close> are returned.
\<close>

theorem C10_falsy_filters:
  "list_products other (Some []) feat db = list_products other None feat db \<and>
   list_products_q (Some []) None = [] \<and>
   fst (list_products other (Some []) None db) =
     collect (doc_with_id other) (colls db ''product'') \<and>
   list_products_q None (Some False) = [(''featured'', BBool False)] \<and>
   fst (list_products other None (Some False) db) =
     collect (doc_with_id other) (filter (featured_is False) (colls db ''product''))"
proof -
  have q: "list_products_q (Some []) feat = list_products_q None feat"
    by (simp add: list_products_q_def)
  have 1: "list_products other (Some []) feat db = list_products other None feat db"
    by (simp add: list_products_eq q)
  have 2: "list_products_q (Some []) None = []"
    by (simp add: list_products_q_def)
  have 3: "fst (list_products other (Some []) None db) =
      collect (doc_with_id other) (colls db ''product'')"
    by (simp add: list_products_eq 2 matches_nothing)
  have 4: "list_products_q None (Some False) = [(''featured'', BBool False)]"
    by (simp add: list_products_q_def)
  have 5: "fst (list_products other None (Some False) db) =
      collect (doc_with_id other) (filter (featured_is False) (colls db ''product''))"
    by (simp add: list_products_eq matches_featured)
  from 1 2 3 4 5 show ?thesis by blast
qed

text \<open>C10 on the database with one product, of category \<^verbatim>\<open>braids\<close> and not featured.\<close>

theorem C10_falsy_filters_witness:
  "fst (list_products no_str (Some []) None shop_db) = Inr [Some (shaped no_str legacy_doc)] \<and>
   fst (list_products no_str None (Some False) shop_db) = Inr [Some (shaped no_str legacy_doc)] \<and>
   legacy_doc ''category'' = Some (BStr ''braids'') \<and>
   legacy_doc ''featured'' = Some (BBool False)"
proof -
  have 3: "has_id legacy_doc" by (simp add: has_id_def legacy_doc_def)
  have 4: "featured_is False legacy_doc" "legacy_doc ''category'' = Some (BStr ''braids'')"
    "legacy_doc ''featured'' = Some (BBool False)"
    by (simp_all add: featured_is_def legacy_doc_def Product_model_dump_def box_braids_def)
  have 5: "colls shop_db ''product'' = [legacy_doc]" by (simp add: shop_db_def)
  note th = C10_falsy_filters[of no_str None shop_db]
  have a: "fst (list_products no_str (Some []) None shop_db) = Inr [Some (shaped no_str legacy_doc)]"
    using th[THEN conjunct2, THEN conjunct2, THEN conjunct1] 3
    by (simp add: 5 doc_with_id_shaped)
  have b: "fst (list_products no_str None (Some False) shop_db) = Inr [Some (shaped no_str legacy_doc)]"
    using th[THEN conjunct2, THEN conjunct2, THEN conjunct2, THEN conjunct2] 3 4(1)
    by (simp add: 5 doc_with_id_shaped)
  from a b 4 show ?thesis by simp
qed

section \<open>Creating a product and reading it back\<close>

















lemma ObjectId_str_oid1: "ObjectId_str oid1 = ''507f1f77bcf86cd799439011''"
  by (simp add: ObjectId_str_def oid1_def hexlify_def hexdigit_def)


section \<open>Validation of request bodies\<close>

lemma post_products_invalid:
  assumes "e \<in> set (Product_errors HttpUrl body)"
  shows "post_products HttpUrl body new_id db =
           (Inl (RequestValidationError (Product_errors HttpUrl body)), db)"
proof -
  from assms obtain x xs where "Product_errors HttpUrl body = x # xs"
    by (cases "Product_errors HttpUrl body") auto
  then show ?thesis by (simp add: post_products_def validate_Product_def)
qed

lemma image_error_member:
  assumes "images_in body = Some ims" and "i < length ims"
    and "e \<in> set (ProductImage_errors HttpUrl [Field ''body'', Field ''images'', Index i] (ims ! i))"
  shows "e \<in> set (Product_errors HttpUrl body)"
proof -
  from assms(2) have "(i, ims ! i) \<in> set (enumerate 0 ims)"
    by (simp add: in_set_enumerate_eq)
  with assms(3) have "e \<in> set (concat (map (\<lambda>(i, im).
      ProductImage_errors HttpUrl [Field ''body'', Field ''images'', Index i] im) (enumerate 0 ims)))"
    by (force simp del: enumerate_eq_zip)
  with assms(1) show ?thesis by (simp add: Product_errors_def)
qed

text \<open>
  C8. For every \<^verbatim>\<open>Product\<close> body in which a required field (\<^verbatim>\<open>title\<close>, \<^verbatim>\<open>price\<close>,
  \<^verbatim>\<open>category\<close>, an image's \<^verbatim>\<open>url\<close>) is missing, the price is below 0, or an image's
  \<^verbatim>\<open>url\<close> fails the \<^verbatim>\<open>HttpUrl\<close> check, \<^verbatim>\<open>POST /products\<close> fails with a validation error that
  has an entry located at the offending field, and the database, with the list of the
  calls made to it, is as before: nothing is persisted.
\<close>

theorem C8_invalid_product_rejected:
  "(title_in body = None \<longrightarrow>
      (\<exists>errs. post_products HttpUrl body new_id db = (Inl (RequestValidationError errs), db) \<and>
         ([Field ''body'', Field ''title''], ''missing'') \<in> set errs)) \<and>
   (price_in body = None \<longrightarrow>
      (\<exists>errs. post_products HttpUrl body new_id db = (Inl (RequestValidationError errs), db) \<and>
         ([Field ''body'', Field ''price''], ''missing'') \<in> set errs)) \<and>
   (category_in body = None \<longrightarrow>
      (\<exists>errs. post_products HttpUrl body new_id db = (Inl (RequestValidationError errs), db) \<and>
         ([Field ''body'', Field ''category''], ''missing'') \<in> set errs)) \<and>
   (\<forall>x. price_in body = Some x \<and> x < 0 \<longrightarrow>
      (\<exists>errs. post_products HttpUrl body new_id db = (Inl (RequestValidationError errs), db) \<and>
         ([Field ''body'', Field ''price''], ''greater_than_equal'') \<in> set errs)) \<and>
   (\<forall>ims i u ty. images_in body = Some ims \<and> i < length ims \<and>
        url_in (ims ! i) = Some u \<and> HttpUrl u = Inl ty \<longrightarrow>
      (\<exists>errs. post_products HttpUrl body new_id db = (Inl (RequestValidationError errs), db) \<and>
         ([Field ''body'', Field ''images'', Index i, Field ''url''], ty) \<in> set errs)) \<and>
   (\<forall>ims i. images_in body = Some ims \<and> i < length ims \<and> url_in (ims ! i) = None \<longrightarrow>
      (\<exists>errs. post_products HttpUrl body new_id db = (Inl (RequestValidationError errs), db) \<and>
         ([Field ''body'', Field ''images'', Index i, Field ''url''], ''missing'') \<in> set errs))"
proof -
  let ?errs = "Product_errors HttpUrl body"
  let ?goal = "\<lambda>e. \<exists>errs. post_products HttpUrl body new_id db =
      (Inl (RequestValidationError errs), db) \<and> e \<in> set errs"
  have rej: "?goal e" if "e \<in> set ?errs" for e
    using post_products_invalid[OF that] that by blast
  have 1: "?goal ([Field ''body'', Field ''title''], ''missing'')" if "title_in body = None"
    by (rule rej) (simp add: Product_errors_def required_def that)
  have 2: "?goal ([Field ''body'', Field ''price''], ''missing'')" if "price_in body = None"
    by (rule rej) (simp add: Product_errors_def required_ge0_def that)
  have 3: "?goal ([Field ''body'', Field ''category''], ''missing'')" if "category_in body = None"
    by (rule rej) (simp add: Product_errors_def required_def that)
  have 4: "?goal ([Field ''body'', Field ''price''], ''greater_than_equal'')"
    if "price_in body = Some x" "x < 0" for x
    by (rule rej) (use that in \<open>simp add: Product_errors_def required_ge0_def\<close>)
  have 5: "?goal ([Field ''body'', Field ''images'', Index i, Field ''url''], ty)"
    if "images_in body = Some ims" "i < length ims" "url_in (ims ! i) = Some u" "HttpUrl u = Inl ty"
    for ims i u ty
    by (rule rej, rule image_error_member[OF that(1,2)])
       (simp add: ProductImage_errors_def required_checked_def that)
  have 6: "?goal ([Field ''body'', Field ''images'', Index i, Field ''url''], ''missing'')"
    if "images_in body = Some ims" "i < length ims" "url_in (ims ! i) = None" for ims i
    by (rule rej, rule image_error_member[OF that(1,2)])
       (simp add: ProductImage_errors_def required_checked_def that)
  from 1 2 3 4 5 6 show ?thesis by blast
qed

text \<open>C8 at a body with price -1 and at a body with the image URL \<^verbatim>\<open>braids.png\<close>.\<close>

theorem C8_invalid_product_rejected_witness:
  "(\<exists>errs. post_products example_HttpUrl negative_price_body oid1 empty_db =
        (Inl (RequestValidationError errs), empty_db) \<and>
      ([Field ''body'', Field ''price''], ''greater_than_equal'') \<in> set errs) \<and>
   (\<exists>errs. post_products example_HttpUrl bad_url_body oid1 empty_db =
        (Inl (RequestValidationError errs), empty_db) \<and>
      ([Field ''body'', Field ''images'', Index 0, Field ''url''], ''url_parsing'') \<in> set errs)"
proof -
  have a: "price_in negative_price_body = Some (- 1) \<and> (- 1 :: real) < 0"
    by (simp add: negative_price_body_def)
  have b: "images_in bad_url_body = Some [\<lparr>url_in = Some ''braids.png'', alt_in = None\<rparr>] \<and>
      0 < length [\<lparr>url_in = Some ''braids.png'', alt_in = None\<rparr>] \<and>
      url_in ([\<lparr>url_in = Some ''braids.png'', alt_in = None\<rparr>] ! 0) = Some ''braids.png'' \<and>
      example_HttpUrl ''braids.png'' = Inl ''url_parsing''"
    by (simp add: bad_url_body_def example_HttpUrl_def)
  from C8_invalid_product_rejected[of negative_price_body example_HttpUrl oid1 empty_db] a
  have 1: "\<exists>errs. post_products example_HttpUrl negative_price_body oid1 empty_db =
        (Inl (RequestValidationError errs), empty_db) \<and>
      ([Field ''body'', Field ''price''], ''greater_than_equal'') \<in> set errs"
    by blast
  from C8_invalid_product_rejected[of bad_url_body example_HttpUrl oid1 empty_db] b
  have 2: "\<exists>errs. post_products example_HttpUrl bad_url_body oid1 empty_db =
        (Inl (RequestValidationError errs), empty_db) \<and>
      ([Field ''body'', Field ''images'', Index 0, Field ''url''], ''url_parsing'') \<in> set errs"
    by blast
  from 1 2 show ?thesis by blast
qed

lemma CartItem_errors_Nil:
  "product_id_in it \<noteq> None \<Longrightarrow> (\<forall>n. quantity_in it = Some n \<longrightarrow> 1 \<le> n) \<Longrightarrow>
   CartItem_errors loc it = []"
  by (auto simp: CartItem_errors_def required_def split: option.splits)

lemma items_errors_Nil:
  assumes "\<forall>it \<in> set its. product_id_in it \<noteq> None \<and> (\<forall>n. quantity_in it = Some n \<longrightarrow> 1 \<le> n)"
  shows "concat (map (\<lambda>(i, it). CartItem_errors [Field ''body'', Field ''items'', Index i] it)
           (enumerate k its)) = []"
  using assms
proof (induction its arbitrary: k)
  case Nil
  show ?case by simp
next
  case (Cons it its)
  then show ?case by (simp add: CartItem_errors_Nil)
qed

text \<open>
  C9. \<^verbatim>\<open>POST /orders\<close> accepts every \<^verbatim>\<open>Order\<close> body whose other fields are valid,
  whatever strings its \<^verbatim>\<open>status\<close> and \<^verbatim>\<open>payment_provider\<close> are and also when its \<^verbatim>\<open>items\<close>
  list is empty: the body validates with these values, the request answers \<^verbatim>\<open>{"id": s}\<close>
  and the order is persisted.
\<close>

theorem C9_order_accepted:
  assumes "items_in body = Some its"
    and "\<forall>it \<in> set its. product_id_in it \<noteq> None \<and> (\<forall>n. quantity_in it = Some n \<longrightarrow> 1 \<le> n)"
    and "amount_in body = Some a" and "0 \<le> a"
    and "payment_provider_in body = Some provider"
    and "status_in body = Some st"
    and "customer_in body = Some c"
    and "name_in c \<noteq> None" and "email_in c = Some e" and "EmailStr e = Inr e'"
    and "phone_in c \<noteq> None"
    and "address_in body = Some ad"
    and "line1_in ad \<noteq> None" and "city_in ad \<noteq> None"
  shows "\<exists>ord. validate_Order EmailStr body = Inr ord \<and>
           length (items ord) = length its \<and>
           payment_provider ord = provider \<and>
           status ord = st \<and>
           fst (post_orders EmailStr body new_id db) = Inr [''id'' \<mapsto> BStr (ObjectId_str new_id)] \<and>
           colls (snd (post_orders EmailStr body new_id db)) ''order'' =
             colls db ''order'' @ [(Order_model_dump ord)(''_id'' \<mapsto> BOid new_id)]"
proof -
  have errs: "Order_errors EmailStr body = []"
    using assms items_errors_Nil[OF assms(2), of 0]
    by (auto simp: Order_errors_def required_ge0_def required_def OrderCustomer_errors_def
        OrderAddress_errors_def required_checked_def)
  then obtain ord where v: "validate_Order EmailStr body = Inr ord"
    by (simp add: validate_Order_def)
  with errs assms have f: "length (items ord) = length its" "payment_provider ord = provider"
    "status ord = st"
    by (auto simp: validate_Order_def with_default_def)
  have "post_orders EmailStr body new_id db =
      (Inr [''id'' \<mapsto> BStr (ObjectId_str new_id)],
       db\<lparr>colls := (colls db)(''order'' := colls db ''order'' @
              [(Order_model_dump ord)(''_id'' \<mapsto> BOid new_id)]),
          calls := calls db @ [Insert_one ''order'']\<rparr>)"
    using v by (simp add: post_orders_def create_order_def create_document_def)
  with v f show ?thesis by simp
qed

text \<open>
  C9 at an order with no items, the provider \<^verbatim>\<open>cash-on-delivery\<close> and the status
  \<^verbatim>\<open>awaiting pickup\<close>.
\<close>

theorem C9_order_accepted_witness:
  "\<exists>ord. validate_Order example_EmailStr counter_order_body = Inr ord \<and>
     items ord = [] \<and>
     payment_provider ord = ''cash-on-delivery'' \<and>
     status ord = ''awaiting pickup'' \<and>
     fst (post_orders example_EmailStr counter_order_body oid1 empty_db) =
       Inr [''id'' \<mapsto> BStr ''507f1f77bcf86cd799439011'']"
proof -
  let ?c = "\<lparr>name_in = Some ''Ada'', email_in = Some ''ada@example.com'',
             phone_in = Some ''0800''\<rparr>"
  let ?ad = "\<lparr>line1_in = Some ''1 Marina Road'', line2_in = None,
              city_in = Some ''Lagos'', state_in = None, postal_code_in = None,
              country_in = None\<rparr>"
  have h: "items_in counter_order_body = Some []"
    "\<forall>it \<in> set []. product_id_in it \<noteq> None \<and> (\<forall>n. quantity_in it = Some n \<longrightarrow> 1 \<le> n)"
    "amount_in counter_order_body = Some 0" "(0::real) \<le> 0"
    "payment_provider_in counter_order_body = Some ''cash-on-delivery''"
    "status_in counter_order_body = Some ''awaiting pickup''"
    "customer_in counter_order_body = Some ?c"
    "name_in ?c \<noteq> None" "email_in ?c = Some ''ada@example.com''"
    "example_EmailStr ''ada@example.com'' = Inr ''ada@example.com''"
    "phone_in ?c \<noteq> None"
    "address_in counter_order_body = Some ?ad"
    "line1_in ?ad \<noteq> None" "city_in ?ad \<noteq> None"
    by (simp_all add: counter_order_body_def example_EmailStr_def)
  from C9_order_accepted[where EmailStr = example_EmailStr and body = counter_order_body
      and new_id = oid1 and db = empty_db, OF h]
  show ?thesis unfolding ObjectId_str_oid1 by auto
qed

end
